theory Spec2Isabelle
  imports Main
begin

section \<open>The architecture constants of the little-endian 64-bit POWER port\<close>

text \<open>
  The header \<^verbatim>\<open>src/runtime/arch_power64le.h\<close> is one anonymous C enumeration:
  \<^verbatim>\<open>
  enum {
          thechar = '9',
          BigEndian = 0,
          CacheLineSize = 64,
          RuntimeGogoBytes = 64,
          PhysPageSize = 65536,
          PCQuantum = 4,
          Int64Align = 8
  };
  \<close>
  Each enumerator is a constant of C type \<^verbatim>\<open>int\<close>. There is one header of this
  shape per architecture, so the seven enumerators are the fields of a record and the
  header is one value of it. All values are far inside the range of a C \<^verbatim>\<open>int\<close>, so
  the fields are modelled as mathematical integers.
\<close>

record arch =
  thechar :: int
  BigEndian :: int
  CacheLineSize :: int
  RuntimeGogoBytes :: int
  PhysPageSize :: int
  PCQuantum :: int
  Int64Align :: int

text \<open>
  The character constant \<^verbatim>\<open>'9'\<close> has, in C, the integer value of its character
  code; \<open>of_char\<close> is that reading.
\<close>

definition arch_power64le :: arch where
  "arch_power64le =
     \<lparr> thechar = of_char CHR ''9'',
       BigEndian = 0,
       CacheLineSize = 64,
       RuntimeGogoBytes = 64,
       PhysPageSize = 65536,
       PCQuantum = 4,
       Int64Align = 8 \<rparr>"

text \<open>
  \<^verbatim>\<open>BigEndian\<close> is used as a C truth value (\<^verbatim>\<open>if(BigEndian)\<close>): zero is false,
  anything else is true.
\<close>

definition isBigEndian :: "arch \<Rightarrow> bool" where
  "isBigEndian a = (BigEndian a \<noteq> 0)"

subsection \<open>Selection of a record by its tag\<close>

datatype error = UnsupportedArchitecture

text \<open>
  Modelled from the spec: the build-time selection step, which is not part of the header.
  The specification describes it as a lookup whose input is an architecture-selection
  tag and whose output is "the single ArchitectureParameters record matching that tag,
  or a build-time failure (UnsupportedArchitecture) if no record matches". The table of
  known records is a parameter; a record matches a tag when its \<open>thechar\<close> field is
  that tag.
\<close>

definition select_arch :: "arch list \<Rightarrow> int \<Rightarrow> error + arch" where
  "select_arch table tag =
     (case find (\<lambda>r. thechar r = tag) table of
        None \<Rightarrow> Inl UnsupportedArchitecture
      | Some r \<Rightarrow> Inr r)"

section \<open>Properties of the power64le record\<close>

text \<open>
  C1. Reading the fields of the power64le record gives the declared values:
  \<open>BigEndian = 0\<close>, that is, not big-endian; \<open>CacheLineSize = 64\<close>;
  \<open>PhysPageSize = 65536\<close>; \<open>PCQuantum = 4\<close>; \<open>Int64Align = 8\<close>;
  \<open>RuntimeGogoBytes = 64\<close>.
\<close>

theorem power64le_fields:
  "BigEndian arch_power64le = 0 \<and>
   isBigEndian arch_power64le = False \<and>
   CacheLineSize arch_power64le = 64 \<and>
   PhysPageSize arch_power64le = 65536 \<and>
   PCQuantum arch_power64le = 4 \<and>
   Int64Align arch_power64le = 8 \<and>
   RuntimeGogoBytes arch_power64le = 64"
  by (simp add: arch_power64le_def isBigEndian_def)

text \<open>
  C2. In the power64le record, \<open>PhysPageSize\<close> and \<open>CacheLineSize\<close> are powers of
  two, and both are greater than zero.
\<close>

theorem power64le_sizes_pow2:
  "0 < PhysPageSize arch_power64le \<and>
   (\<exists>k::nat. PhysPageSize arch_power64le = 2 ^ k) \<and>
   0 < CacheLineSize arch_power64le \<and>
   (\<exists>k::nat. CacheLineSize arch_power64le = 2 ^ k)"
proof -
  have page: "PhysPageSize arch_power64le = 2 ^ 16"
    by (simp add: arch_power64le_def)
  have line: "CacheLineSize arch_power64le = 2 ^ 6"
    by (simp add: arch_power64le_def)
  have "\<exists>k::nat. PhysPageSize arch_power64le = 2 ^ k"
    using page by (rule exI)
  moreover have "\<exists>k::nat. CacheLineSize arch_power64le = 2 ^ k"
    using line by (rule exI)
  moreover have "0 < PhysPageSize arch_power64le" "0 < CacheLineSize arch_power64le"
    by (simp_all add: arch_power64le_def)
  ultimately show ?thesis by simp
qed

text \<open>
  C3. In the power64le record, \<open>Int64Align\<close> divides \<open>PhysPageSize\<close> evenly:
  the alignment is not zero and \<open>PhysPageSize mod Int64Align = 0\<close>.
\<close>

theorem power64le_int64align_divides_page:
  "Int64Align arch_power64le \<noteq> 0 \<and>
   PhysPageSize arch_power64le mod Int64Align arch_power64le = 0 \<and>
   Int64Align arch_power64le dvd PhysPageSize arch_power64le"
  by (simp add: arch_power64le_def)

text \<open>
  C4. Selection fails with \<open>UnsupportedArchitecture\<close> for every tag that matches no
  record of the table, and for every tag that some record of the table carries it
  succeeds with a record of the table that carries this tag: it never fails on a
  supported tag and never answers with a default or a record of another tag.
\<close>

theorem select_arch_unsupported_or_matching:
  "(tag \<notin> thechar ` set table \<longrightarrow>
      select_arch table tag = Inl UnsupportedArchitecture) \<and>
   (tag \<in> thechar ` set table \<longrightarrow>
      (\<exists>r. r \<in> set table \<and> thechar r = tag \<and> select_arch table tag = Inr r))"
proof (cases "find (\<lambda>r. thechar r = tag) table")
  case None
  then have "tag \<notin> thechar ` set table"
    by (auto simp: find_None_iff)
  with None show ?thesis
    by (simp add: select_arch_def)
next
  case (Some r)
  then have "r \<in> set table" and "thechar r = tag"
    by (auto simp: find_Some_iff)
  with Some show ?thesis
    by (auto simp: select_arch_def)
qed

theorem select_arch_unsupported_or_matching_witness:
  "54 \<notin> thechar ` set [arch_power64le] \<and>
   select_arch [arch_power64le] 54 = Inl UnsupportedArchitecture \<and>
   57 \<in> thechar ` set [arch_power64le] \<and>
   (\<exists>r. r \<in> set [arch_power64le] \<and> thechar r = 57 \<and>
        select_arch [arch_power64le] 57 = Inr r)"
  using select_arch_unsupported_or_matching [of 54 "[arch_power64le]"]
    select_arch_unsupported_or_matching [of 57 "[arch_power64le]"]
  by (simp add: arch_power64le_def)

text \<open>
  C5. The tag of the power64le record is a single character code, the character
  \<^verbatim>\<open>'9'\<close>: its value is 57, it lies in the range of one byte, and it is the code of
  \<open>CHR ''9''\<close> and of no other character.
\<close>

theorem power64le_thechar:
  "thechar arch_power64le = 57 \<and>
   0 \<le> thechar arch_power64le \<and> thechar arch_power64le < 256 \<and>
   char_of (thechar arch_power64le) = CHR ''9'' \<and>
   of_char (char_of (thechar arch_power64le)) = thechar arch_power64le"
proof -
  have v: "thechar arch_power64le = 57"
    by (simp add: arch_power64le_def)
  have "char_of (57::int) = CHR ''9''"
    by (simp add: char_of_def bit_iff_odd_drop_bit)
  with v show ?thesis by simp
qed

text \<open>
  C9. In the power64le record, \<open>Int64Align\<close> (8) divides \<open>CacheLineSize\<close> (64), so
  every multiple of the cache line size is a multiple of the 8-byte alignment.
\<close>

theorem power64le_int64align_divides_cacheline:
  "Int64Align arch_power64le = 8 \<and> CacheLineSize arch_power64le = 64 \<and>
   Int64Align arch_power64le dvd CacheLineSize arch_power64le \<and>
   Int64Align arch_power64le dvd n * CacheLineSize arch_power64le"
  by (simp add: arch_power64le_def)

text \<open>
  C10. In the power64le record, \<open>CacheLineSize\<close> (64) divides \<open>PhysPageSize\<close>
  (65536), so every multiple of the page size is a multiple of the cache line size.
\<close>

theorem power64le_cacheline_divides_page:
  "CacheLineSize arch_power64le = 64 \<and> PhysPageSize arch_power64le = 65536 \<and>
   CacheLineSize arch_power64le dvd PhysPageSize arch_power64le \<and>
   CacheLineSize arch_power64le dvd n * PhysPageSize arch_power64le"
  by (simp add: arch_power64le_def)

end
